theory Spec2Isabelle
  imports Complex_Main
begin

section \<open>Data model\<close>

text \<open>
  The two scripts exchange JSON objects. A JSON object is modelled as a record whose
  fields are the keys the scripts read and write; an object that carries more keys than
  another one is a record extension of it, so the field names are the JSON keys.
  Python floats are modelled as real numbers. A key that the code reads with
  \<^verbatim>\<open>.get(key, default)\<close> has an option type: \<open>None\<close> is the absent key.

  An elevation-profile point has the keys \<^verbatim>\<open>distance\<close>, \<^verbatim>\<open>elevation\<close> and \<^verbatim>\<open>time\<close>;
  a route point has \<^verbatim>\<open>lat\<close> and \<^verbatim>\<open>lon\<close> in addition; a point of the combined route
  has \<^verbatim>\<open>day\<close> and \<^verbatim>\<open>original_distance\<close> on top of those.
\<close>

record elevation_point =
  distance :: "real option"
  elevation :: real
  time :: "string option"

record route_point = elevation_point +
  lat :: real
  lon :: real

record combined_point = route_point +
  day :: int
  original_distance :: real

text \<open>
  The elevation dataset has the keys \<^verbatim>\<open>total_distance\<close> and \<^verbatim>\<open>points\<close>; the route
  dataset adds \<^verbatim>\<open>start_time\<close> and \<^verbatim>\<open>end_time\<close>; the combined dataset adds the per-day
  distances and the index markers.
\<close>

record 'p elevation_data =
  total_distance :: "real option"
  points :: "'p list"

record 'p route_data = "'p elevation_data" +
  start_time :: "string option"
  end_time :: "string option"

record 'p combined_data = "'p route_data" +
  day1_distance :: real
  day2_distance :: real
  day1_start_index :: int
  day1_end_index :: int
  day2_start_index :: int
  day2_end_index :: int

datatype py_error = ValueError string | ZeroDivisionError

section \<open>combine\_routes.py\<close>

text \<open>
  The file system as the script sees it: a file is absent, holds text that is not JSON,
  or holds a route dataset (a JSON object with a \<^verbatim>\<open>points\<close> list of point objects
  whose numeric keys hold numbers). Other JSON values are outside this type: an empty
  object or \<^verbatim>\<open>null\<close>, which the script treats like a file that could not be loaded, and
  an object without \<^verbatim>\<open>points\<close>, on which the script stops with a \<^verbatim>\<open>KeyError\<close>.
\<close>

datatype 'a json_file = NotFound | BadJson | Json 'a

type_synonym disk = "string \<Rightarrow> route_point route_data json_file"

text \<open>\<^verbatim>\<open>load_route_data\<close>: the lines printed, and the data or \<open>None\<close>.\<close>

definition load_route_data :: "disk \<Rightarrow> string \<Rightarrow> string list \<times> route_point route_data option" where
  "load_route_data fs filename =
     (case fs filename of
        Json data \<Rightarrow> ([], Some data)
      | NotFound \<Rightarrow> ([''File '' @ filename @ '' not found!''], None)
      | BadJson \<Rightarrow> ([''Error parsing '' @ filename @ ''!''], None))"

text \<open>\<^verbatim>\<open>data.get('total_distance', 0)\<close> and \<^verbatim>\<open>point.get('distance', 0)\<close>.\<close>

definition get_or_0 :: "real option \<Rightarrow> real" where
  "get_or_0 v = (case v of None \<Rightarrow> 0 | Some d \<Rightarrow> d)"

text \<open>
  The body of the two loops: \<^verbatim>\<open>point.copy()\<close> followed by the three assignments to
  \<^verbatim>\<open>day\<close>, \<^verbatim>\<open>original_distance\<close> and \<^verbatim>\<open>distance\<close>.
\<close>

definition stamp :: "route_point \<Rightarrow> int \<Rightarrow> real \<Rightarrow> combined_point" where
  "stamp point d new_distance =
     \<lparr>distance = Some new_distance, elevation = elevation point, time = time point,
      lat = lat point, lon = lon point,
      day = d, original_distance = get_or_0 (distance point)\<rparr>"

text \<open>
  The day-1 loop, on the state (\<open>combined_points\<close>, \<open>cumulative_distance\<close>): the point is
  stamped with the current \<open>cumulative_distance\<close>, which is then \<^emph>\<open>assigned\<close> the point's
  own distance.
\<close>

fun add_day1_points :: "route_point list \<Rightarrow> combined_point list \<times> real \<Rightarrow> combined_point list \<times> real" where
  "add_day1_points [] st = st"
| "add_day1_points (point # rest) (combined_points, cumulative_distance) =
     add_day1_points rest
       (combined_points @ [stamp point 1 cumulative_distance], get_or_0 (distance point))"

text \<open>The day-2 loop: \<open>cumulative_distance\<close> is read and never changed.\<close>

fun add_day2_points :: "route_point list \<Rightarrow> real \<Rightarrow> combined_point list \<Rightarrow> combined_point list" where
  "add_day2_points [] cumulative_distance combined_points = combined_points"
| "add_day2_points (point # rest) cumulative_distance combined_points =
     add_day2_points rest cumulative_distance
       (combined_points @ [stamp point 2 (cumulative_distance + get_or_0 (distance point))])"

text \<open>
  What one run of \<^verbatim>\<open>combine_routes\<close> does: it returns early after printing its
  report (\<open>Aborted\<close> with every line printed so far, no file written), or it writes
  the combined dataset to a file (\<open>Saved\<close>; the progress lines printed after the write
  are not modelled).
\<close>

datatype outcome =
    is_Aborted: Aborted (report: "string list")
  | is_Saved: Saved (path: string) (written: "combined_point combined_data")

definition combine_routes :: "disk \<Rightarrow> outcome" where
  "combine_routes fs =
     (let (out1, day1_data) = load_route_data fs ''data/route-day1.json'';
          (out2, day2_data) = load_route_data fs ''data/route-day2.json''
      in case (day1_data, day2_data) of
           (Some d1, Some d2) \<Rightarrow>
             (let day1_points = points d1;
                  day2_points = points d2
              in if day1_points = [] \<or> day2_points = []
                 then Aborted (out1 @ out2 @ [''No points found in route data!''])
                 else
                   (let day1_dist = get_or_0 (total_distance d1);
                        day2_dist = get_or_0 (total_distance d2);
                        total_dist = day1_dist + day2_dist;
                        (day1_combined, cumulative_distance) = add_day1_points day1_points ([], 0);
                        combined_points = add_day2_points day2_points cumulative_distance day1_combined
                    in Saved ''data/route-combined.json''
                         \<lparr>total_distance = Some total_dist,
                          points = combined_points,
                          start_time = start_time d1,
                          end_time = end_time d2,
                          day1_distance = day1_dist,
                          day2_distance = day2_dist,
                          day1_start_index = 0,
                          day1_end_index = int (length day1_points) - 1,
                          day2_start_index = int (length day1_points),
                          day2_end_index = int (length combined_points) - 1\<rparr>))
         | _ \<Rightarrow> Aborted (out1 @ out2 @ [''Could not load route data!'']))"

section \<open>gpx\_converter.py\<close>

subsection \<open>The parsed track\<close>

text \<open>
  A track point of the parsing library, with the four attributes the script reads:
  \<^verbatim>\<open>latitude\<close>, \<^verbatim>\<open>longitude\<close>, \<^verbatim>\<open>elevation\<close> and \<^verbatim>\<open>time\<close> (the last two may be
  \<^verbatim>\<open>None\<close>; they are prefixed here because the JSON keys already use the plain names).
  Of a timestamp only the hour and the minute are read.
\<close>

record datetime =
  hour :: nat
  minute :: nat

record gpx_point =
  latitude :: real
  longitude :: real
  gpx_elevation :: "real option"
  gpx_time :: "datetime option"

text \<open>A parsed file: its tracks, each a list of segments, each a list of points.\<close>

type_synonym gpx = "gpx_point list list list"

text \<open>\<^verbatim>\<open>strftime('%H:%M')\<close>: two decimal digits each, zero padded.\<close>

definition two_digits :: "nat \<Rightarrow> string" where
  "two_digits n = [''0123456789'' ! (n div 10 mod 10), ''0123456789'' ! (n mod 10)]"

definition parse_time :: "datetime option \<Rightarrow> string option" where
  "parse_time gpx_time_value =
     (case gpx_time_value of
        Some t \<Rightarrow> Some (two_digits (hour t) @ '':'' @ two_digits (minute t))
      | None \<Rightarrow> None)"

subsection \<open>calculate\_distance\<close>

text \<open>
  The functions of Python's \<^verbatim>\<open>math\<close> module on the reals. \<^verbatim>\<open>math.sqrt\<close> and
  \<^verbatim>\<open>math.asin\<close> raise \<^verbatim>\<open>ValueError\<close> outside their domains. The rounding of
  double-precision arithmetic is not part of this model: on doubles the term under the
  square root can come out slightly below 0 when a latitude lies outside -90..90 (for
  instance from (62.7565, -4.8) to (117.2435, 175.2)), and \<^verbatim>\<open>math.sqrt\<close> then raises;
  with latitudes in range both cosines are at least 0 and the term is a sum of
  non-negative numbers.
\<close>

definition radians :: "real \<Rightarrow> real" where
  "radians d = d * pi / 180"

definition math_sqrt :: "real \<Rightarrow> py_error + real" where
  "math_sqrt x = (if x < 0 then Inl (ValueError ''math domain error'') else Inr (sqrt x))"

definition math_asin :: "real \<Rightarrow> py_error + real" where
  "math_asin x =
     (if x < - 1 \<or> 1 < x then Inl (ValueError ''math domain error'') else Inr (arcsin x))"

definition calculate_distance :: "real \<Rightarrow> real \<Rightarrow> real \<Rightarrow> real \<Rightarrow> py_error + real" where
  "calculate_distance lat1 lon1 lat2 lon2 =
     (let R = 6371;
          rlat1 = radians lat1; rlon1 = radians lon1;
          rlat2 = radians lat2; rlon2 = radians lon2;
          dlat = rlat2 - rlat1;
          dlon = rlon2 - rlon1;
          a = (sin (dlat / 2))\<^sup>2 + cos rlat1 * cos rlat2 * (sin (dlon / 2))\<^sup>2
      in case math_sqrt a of
           Inl e \<Rightarrow> Inl e
         | Inr s \<Rightarrow>
             (case math_asin s of
                Inl e \<Rightarrow> Inl e
              | Inr t \<Rightarrow> (let c = 2 * t in Inr (R * c))))"

subsection \<open>convert\_gpx\_to\_json\<close>

text \<open>
  The first loop, on the state (\<open>all_points\<close>, \<open>elevation_points\<close>, \<open>total_distance\<close>,
  previous coordinates). \<open>prev_lat\<close> and \<open>prev_lon\<close> are set together, so they are one
  optional pair. An exception of \<open>calculate_distance\<close> ends the loop.
\<close>

type_synonym extract_state =
  "route_point list \<times> elevation_point list \<times> real \<times> (real \<times> real) option"

fun extract_points :: "gpx_point list \<Rightarrow> extract_state \<Rightarrow> py_error + extract_state" where
  "extract_points [] st = Inr st"
| "extract_points (point # rest) (all_points, elevation_points, total_dist, prev) =
     (let lat_v = latitude point;
          lon_v = longitude point;
          elevation_v = (case gpx_elevation point of Some e \<Rightarrow> e | None \<Rightarrow> 0);
          time_v = parse_time (gpx_time point)
      in case (case prev of
                 Some (prev_lat, prev_lon) \<Rightarrow>
                   (case calculate_distance prev_lat prev_lon lat_v lon_v of
                      Inl e \<Rightarrow> Inl e
                    | Inr segment_distance \<Rightarrow> Inr (total_dist + segment_distance))
               | None \<Rightarrow> Inr total_dist) of
           Inl e \<Rightarrow> Inl e
         | Inr total_dist' \<Rightarrow>
             extract_points rest
               (all_points @
                  [\<lparr>distance = Some total_dist', elevation = elevation_v, time = time_v,
                    lat = lat_v, lon = lon_v\<rparr>],
                (case gpx_elevation point of
                   Some e \<Rightarrow>
                     elevation_points @ [\<lparr>distance = Some total_dist', elevation = e, time = time_v\<rparr>]
                 | None \<Rightarrow> elevation_points),
                total_dist',
                Some (lat_v, lon_v)))"

text \<open>
  The second loop: the elevation profile is read off \<open>all_points\<close>. An entry of
  \<open>all_points\<close> always has a number under \<^verbatim>\<open>elevation\<close>, so of the test
  \<^verbatim>\<open>point['elevation'] is not None and point['elevation'] > 0\<close> the comparison decides.
\<close>

definition elevation_profile_of :: "route_point list \<Rightarrow> elevation_point list" where
  "elevation_profile_of all_points =
     map (\<lambda>point. \<lparr>distance = distance point, elevation = elevation point, time = time point\<rparr>)
       (filter (\<lambda>point. elevation point > 0) all_points)"

text \<open>
  Lines 64 to 126: from the points of the segment to the two datasets that are written
  (the unused list \<open>elevation_points\<close> is dropped).
\<close>

definition accumulate ::
  "gpx_point list \<Rightarrow> py_error + (route_point route_data \<times> elevation_point elevation_data)" where
  "accumulate segment_points =
     (case extract_points segment_points ([], [], 0, None) of
        Inl e \<Rightarrow> Inl e
      | Inr (all_points, elevation_points, total_dist, prev) \<Rightarrow>
          Inr (\<lparr>total_distance = Some total_dist,
                points = all_points,
                start_time = (if all_points \<noteq> [] then time (hd all_points) else None),
                end_time = (if all_points \<noteq> [] then time (last all_points) else None)\<rparr>,
               \<lparr>total_distance = Some total_dist,
                points = elevation_profile_of all_points\<rparr>))"

text \<open>
  The whole conversion of a parsed file. \<open>reduce_points\<close> stands for the call
  \<^verbatim>\<open>gpx.reduce_points(min_distance=min_distance)\<close> into the parsing library, whose code
  is not part of the repository: it gives the points of the first segment of the first
  track after the reduction. The script itself adds no point back after the call. The
  result is the pair of datasets written to the two files; reading and parsing the input
  file and the progress lines printed are not modelled.
\<close>

definition convert_gpx_to_json ::
  "(real \<Rightarrow> gpx \<Rightarrow> gpx_point list) \<Rightarrow> gpx \<Rightarrow> real \<Rightarrow>
   py_error + (route_point route_data \<times> elevation_point elevation_data)" where
  "convert_gpx_to_json reduce_points parsed min_distance =
     (case parsed of
        [] \<Rightarrow> Inl (ValueError ''No tracks found in GPX file'')
      | track # other_tracks \<Rightarrow>
          (case track of
             [] \<Rightarrow> Inl (ValueError ''No segments found in track'')
           | segment # other_segments \<Rightarrow> accumulate (reduce_points min_distance parsed)))"

subsection \<open>create\_svg\_path\_from\_coordinates\<close>

text \<open>Float division raises on a zero divisor.\<close>

definition py_div :: "real \<Rightarrow> real \<Rightarrow> py_error + real" where
  "py_div a b = (if b = 0 then Inl ZeroDivisionError else Inr (a / b))"

text \<open>\<^verbatim>\<open>" ".join(parts)\<close>\<close>

fun join_spaces :: "string list \<Rightarrow> string" where
  "join_spaces [] = []"
| "join_spaces [part] = part"
| "join_spaces (part # parts) = part @ '' '' @ join_spaces parts"

text \<open>
  The loop over \<^verbatim>\<open>enumerate(points)\<close>. \<open>fmt\<close> stands for the formatting of a float
  with the format specification \<^verbatim>\<open>.2f\<close>; the viewport is 1000 by 500.
\<close>

fun path_loop ::
  "(real \<Rightarrow> string) \<Rightarrow> real \<times> real \<Rightarrow> real \<times> real \<Rightarrow> nat \<Rightarrow> route_point list \<Rightarrow> string list \<Rightarrow>
   py_error + string list" where
  "path_loop fmt lat_range lon_range i [] path_parts = Inr path_parts"
| "path_loop fmt (min_lat, max_lat) (min_lon, max_lon) i (point # rest) path_parts =
     (let width = 1000; height = 500
      in case py_div (lon point - min_lon) (max_lon - min_lon) of
           Inl e \<Rightarrow> Inl e
         | Inr qx \<Rightarrow>
             (case py_div (max_lat - lat point) (max_lat - min_lat) of
                Inl e \<Rightarrow> Inl e
              | Inr qy \<Rightarrow>
                  (let x = qx * width; y = qy * height
                   in path_loop fmt (min_lat, max_lat) (min_lon, max_lon) (Suc i) rest
                        (path_parts @
                           [(if i = 0 then ''M '' else ''L '') @ fmt x @ '' '' @ fmt y]))))"

text \<open>
  \<^verbatim>\<open>min\<close> and \<^verbatim>\<open>max\<close> of a list are taken after the test for the empty list, so the
  lists are not empty where \<open>Min\<close> and \<open>Max\<close> are applied.
\<close>

definition create_svg_path_from_coordinates ::
  "(real \<Rightarrow> string) \<Rightarrow> route_point list \<Rightarrow> py_error + string" where
  "create_svg_path_from_coordinates fmt pts =
     (if pts = [] then Inr []
      else
        (let lats = map lat pts;
             lons = map lon pts;
             min_lat = Min (set lats); max_lat = Max (set lats);
             min_lon = Min (set lons); max_lon = Max (set lons)
         in case path_loop fmt (min_lat, max_lat) (min_lon, max_lon) 0 pts [] of
              Inl e \<Rightarrow> Inl e
            | Inr path_parts \<Rightarrow> Inr (join_spaces path_parts)))"

section \<open>Example inputs\<close>

text \<open>
  Concrete datasets on which the theorems below are evaluated: a route point that carries
  only a distance, a day dataset given by its header total and the distances of its points,
  and a file system that holds the two day files.
\<close>

definition example_point :: "real \<Rightarrow> route_point" where
  "example_point d = \<lparr>distance = Some d, elevation = 0, time = None, lat = 0, lon = 0\<rparr>"

definition example_day :: "real \<Rightarrow> real list \<Rightarrow> route_point route_data" where
  "example_day header_total ds =
     \<lparr>total_distance = Some header_total, points = map example_point ds,
      start_time = None, end_time = None\<rparr>"

definition example_disk ::
  "route_point route_data json_file \<Rightarrow> route_point route_data json_file \<Rightarrow> disk" where
  "example_disk file1 file2 name =
     (if name = ''data/route-day1.json'' then file1
      else if name = ''data/route-day2.json'' then file2
      else NotFound)"

text \<open>Day 1 with distances 0, 2, 5 km and total 5 km; day 2 with 0, 3 km and total 3 km.\<close>

definition two_days :: disk where
  "two_days = example_disk (Json (example_day 5 [0, 2, 5])) (Json (example_day 3 [0, 3]))"

text \<open>Day 1 is missing; day 1 is present and has no points.\<close>

definition day1_missing :: disk where
  "day1_missing = example_disk NotFound (Json (example_day 3 [0, 3]))"

definition day1_empty :: disk where
  "day1_empty = example_disk (Json (example_day 0 [])) (Json (example_day 3 [0, 3]))"

text \<open>
  A track of three points on the equator: at longitude 0 with elevation 120 m, at
  longitude 180 without elevation, and at the same place with elevation -5 m. The second
  point is half the circumference away from the first one.
\<close>

definition example_track :: "gpx_point list" where
  "example_track =
     [\<lparr>latitude = 0, longitude = 0, gpx_elevation = Some 120,
       gpx_time = Some \<lparr>hour = 9, minute = 5\<rparr>\<rparr>,
      \<lparr>latitude = 0, longitude = 180, gpx_elevation = None, gpx_time = None\<rparr>,
      \<lparr>latitude = 0, longitude = 180, gpx_elevation = Some (- 5), gpx_time = None\<rparr>]"

text \<open>
  Points for the path projection: two points on a diagonal, and a single point. The
  formatter prints the three coordinate values that occur on the diagonal the way the
  format specification \<^verbatim>\<open>.2f\<close> prints them.
\<close>

definition path_point :: "real \<Rightarrow> real \<Rightarrow> route_point" where
  "path_point la lo = \<lparr>distance = None, elevation = 0, time = None, lat = la, lon = lo\<rparr>"

definition diagonal :: "route_point list" where
  "diagonal = [path_point 46 6, path_point 47 7]"

definition single_point :: "route_point list" where
  "single_point = [path_point 46 6]"

definition corner_format :: "real \<Rightarrow> string" where
  "corner_format v =
     (if v = 0 then ''0.00'' else if v = 500 then ''500.00''
      else if v = 1000 then ''1000.00'' else ''?'')"

section \<open>Properties of the route stitcher\<close>

subsection \<open>The two loops in closed form\<close>

lemma add_day1_points_closed:
  "add_day1_points ps (acc, c) =
     (acc @ map (\<lambda>(p, d). stamp p 1 d) (zip ps (c # map (\<lambda>p. get_or_0 (distance p)) ps)),
      last (c # map (\<lambda>p. get_or_0 (distance p)) ps))"
  by (induction ps arbitrary: acc c) simp_all

lemma add_day2_points_closed:
  "add_day2_points ps c acc =
     acc @ map (\<lambda>p. stamp p 2 (c + get_or_0 (distance p))) ps"
  by (induction ps arbitrary: acc) simp_all

text \<open>
  With both files present and both point lists non-empty, \<open>combine_routes\<close> writes this
  dataset: the day-1 points paired with the list of offsets (0, then the distances of the
  day-1 points in order), followed by the day-2 points shifted by the distance of the last
  day-1 point.
\<close>

lemma combine_routes_saved:
  assumes "fs ''data/route-day1.json'' = Json d1" and "fs ''data/route-day2.json'' = Json d2"
    and "points d1 \<noteq> []" and "points d2 \<noteq> []"
  shows "combine_routes fs =
     Saved ''data/route-combined.json''
       \<lparr>total_distance = Some (get_or_0 (total_distance d1) + get_or_0 (total_distance d2)),
        points =
          map (\<lambda>(p, d). stamp p 1 d)
            (zip (points d1) (0 # map (\<lambda>p. get_or_0 (distance p)) (points d1))) @
          map (\<lambda>p. stamp p 2 (get_or_0 (distance (last (points d1))) + get_or_0 (distance p)))
            (points d2),
        start_time = start_time d1,
        end_time = end_time d2,
        day1_distance = get_or_0 (total_distance d1),
        day2_distance = get_or_0 (total_distance d2),
        day1_start_index = 0,
        day1_end_index = int (length (points d1)) - 1,
        day2_start_index = int (length (points d1)),
        day2_end_index = int (length (points d1) + length (points d2)) - 1\<rparr>"
  using assms
  by (simp add: combine_routes_def load_route_data_def add_day1_points_closed
      add_day2_points_closed Let_def last_map)

lemma day1_stamp_nth:
  assumes "i < length ps"
  shows "(map (\<lambda>(p, d). stamp p 1 d) (zip ps (c # map (\<lambda>p. get_or_0 (distance p)) ps)) @ back) ! i =
    stamp (ps ! i) 1 (if i = 0 then c else get_or_0 (distance (ps ! (i - 1))))"
  using assms by (cases i) (simp_all add: nth_append)

lemma day2_stamp_nth:
  assumes "j < length qs" and "length front = n"
  shows "(front @ map (\<lambda>p. stamp p 2 (c + get_or_0 (distance p))) qs) ! (n + j) =
    stamp (qs ! j) 2 (c + get_or_0 (distance (qs ! j)))"
  using assms by (simp add: nth_append)

lemma two_days_files:
  "two_days ''data/route-day1.json'' = Json (example_day 5 [0, 2, 5])"
  "two_days ''data/route-day2.json'' = Json (example_day 3 [0, 3])"
  "points (example_day 5 [0, 2, 5]) \<noteq> []"
  "points (example_day 3 [0, 3]) \<noteq> []"
  by (simp_all add: two_days_def example_disk_def example_day_def)

subsection \<open>Day-1 stamping\<close>

text \<open>
  C1. For two non-empty day datasets the combined file is written, and every day-1 point in
  it has \<open>day\<close> 1, keeps its pre-stitch distance as \<open>original_distance\<close>, and has as
  \<open>distance\<close> the offset held before the point was reached: 0 for the first point and
  the pre-stitch distance of the previous day-1 point for every later one. So with
  at least two day-1 points, the last day-1 point is emitted with the pre-stitch distance of
  the second-to-last one. (A pre-stitch distance is read with default 0.)
\<close>

theorem day1_points_stamped_with_previous_distance:
  assumes "fs ''data/route-day1.json'' = Json d1" and "fs ''data/route-day2.json'' = Json d2"
    and "points d1 \<noteq> []" and "points d2 \<noteq> []"
  shows "\<exists>out. combine_routes fs = Saved ''data/route-combined.json'' out \<and>
     (\<forall>i < length (points d1).
        day (points out ! i) = 1 \<and>
        original_distance (points out ! i) = get_or_0 (distance (points d1 ! i)) \<and>
        distance (points out ! i) =
          Some (if i = 0 then 0 else get_or_0 (distance (points d1 ! (i - 1))))) \<and>
     (2 \<le> length (points d1) \<longrightarrow>
        distance (points out ! (length (points d1) - 1)) =
          Some (get_or_0 (distance (points d1 ! (length (points d1) - 2)))))"
proof -
  let ?n = "length (points d1)"
  have nth: "distance (stamp p k d) = Some d" "day (stamp p k d) = k"
    "original_distance (stamp p k d) = get_or_0 (distance p)" for p k d
    by (simp_all add: stamp_def)
  have last_case: "?n - Suc (Suc 0) = ?n - 2" by simp
  show ?thesis
    unfolding combine_routes_saved [OF assms]
    by (auto simp: day1_stamp_nth nth last_case)
qed

text \<open>
  On the days with distances 0, 2, 5 and 0, 3: the day-1 points are emitted with 0, 0, 2.
\<close>

theorem day1_points_stamped_with_previous_distance_witness:
  "two_days ''data/route-day1.json'' = Json (example_day 5 [0, 2, 5]) \<and>
   two_days ''data/route-day2.json'' = Json (example_day 3 [0, 3]) \<and>
   points (example_day 5 [0, 2, 5]) \<noteq> [] \<and>
   points (example_day 3 [0, 3]) \<noteq> [] \<and>
   2 \<le> length (points (example_day 5 [0, 2, 5])) \<and>
   is_Saved (combine_routes two_days) \<and>
   distance (points (written (combine_routes two_days)) ! 0) = Some 0 \<and>
   distance (points (written (combine_routes two_days)) ! 1) = Some 0 \<and>
   distance (points (written (combine_routes two_days)) ! 2) = Some 2"
proof -
  note h = two_days_files
  have len: "length (points (example_day 5 [0, 2, 5])) = 3"
    by (simp add: example_day_def)
  from day1_points_stamped_with_previous_distance [OF h]
  obtain out where saved: "combine_routes two_days = Saved ''data/route-combined.json'' out"
    and stamped: "\<And>i. i < 3 \<Longrightarrow>
        distance (points out ! i) =
          Some (if i = 0 then 0 else get_or_0 (distance (points (example_day 5 [0, 2, 5]) ! (i - 1))))"
    unfolding len by blast
  have "distance (points out ! 0) = Some 0" "distance (points out ! 1) = Some 0"
    "distance (points out ! 2) = Some 2"
    using stamped [of 0] stamped [of 1] stamped [of 2]
    by (simp_all add: example_day_def example_point_def get_or_0_def)
  then show ?thesis using h len saved by simp
qed

subsection \<open>Day-2 stamping\<close>

text \<open>
  C2. For two non-empty day datasets, the first a route dataset as the converter writes it
  (its \<open>total_distance\<close> is the \<open>distance\<close> of its last point), every day-2 point in the
  combined file has \<open>day\<close> 2, keeps its pre-stitch distance as \<open>original_distance\<close>, and
  has as \<open>distance\<close> the \<open>total_distance\<close> of day 1 plus its own pre-stitch distance. The
  code adds the offset left by the day-1 loop, which is the distance of the last day-1 point.
\<close>

theorem day2_points_offset_by_day1_total:
  assumes "fs ''data/route-day1.json'' = Json d1" and "fs ''data/route-day2.json'' = Json d2"
    and "points d1 \<noteq> []" and "points d2 \<noteq> []"
    and "total_distance d1 = distance (last (points d1))"
  shows "\<exists>out. combine_routes fs = Saved ''data/route-combined.json'' out \<and>
     (\<forall>j < length (points d2).
        day (points out ! (length (points d1) + j)) = 2 \<and>
        original_distance (points out ! (length (points d1) + j)) =
          get_or_0 (distance (points d2 ! j)) \<and>
        distance (points out ! (length (points d1) + j)) =
          Some (get_or_0 (total_distance d1) + get_or_0 (distance (points d2 ! j))))"
proof -
  have nth: "distance (stamp p k d) = Some d" "day (stamp p k d) = k"
    "original_distance (stamp p k d) = get_or_0 (distance p)" for p k d
    by (simp_all add: stamp_def)
  show ?thesis
    unfolding combine_routes_saved [OF assms(1-4)] assms(5)
    by (auto simp: day2_stamp_nth nth)
qed

text \<open>
  On the days with distances 0, 2, 5 (total 5) and 0, 3: the last point is emitted with
  5 + 3 = 8.
\<close>

theorem day2_points_offset_by_day1_total_witness:
  "two_days ''data/route-day1.json'' = Json (example_day 5 [0, 2, 5]) \<and>
   two_days ''data/route-day2.json'' = Json (example_day 3 [0, 3]) \<and>
   points (example_day 5 [0, 2, 5]) \<noteq> [] \<and>
   points (example_day 3 [0, 3]) \<noteq> [] \<and>
   total_distance (example_day 5 [0, 2, 5]) = distance (last (points (example_day 5 [0, 2, 5]))) \<and>
   is_Saved (combine_routes two_days) \<and>
   day (points (written (combine_routes two_days)) ! 4) = 2 \<and>
   original_distance (points (written (combine_routes two_days)) ! 4) = 3 \<and>
   distance (points (written (combine_routes two_days)) ! 4) = Some 8"
proof -
  note h = two_days_files
  have len: "length (points (example_day 5 [0, 2, 5])) = 3"
     "length (points (example_day 3 [0, 3])) = 2"
    by (simp_all add: example_day_def)
  have inv: "total_distance (example_day 5 [0, 2, 5]) = distance (last (points (example_day 5 [0, 2, 5])))"
    by (simp add: example_day_def example_point_def)
  from day2_points_offset_by_day1_total [OF h inv]
  obtain out where saved: "combine_routes two_days = Saved ''data/route-combined.json'' out"
    and stamped: "\<And>j. j < 2 \<Longrightarrow>
        day (points out ! (3 + j)) = 2 \<and>
        original_distance (points out ! (3 + j)) =
          get_or_0 (distance (points (example_day 3 [0, 3]) ! j)) \<and>
        distance (points out ! (3 + j)) =
             Some (get_or_0 (total_distance (example_day 5 [0, 2, 5])) +
                   get_or_0 (distance (points (example_day 3 [0, 3]) ! j)))"
    unfolding len by blast
  have "day (points out ! 4) = 2" "original_distance (points out ! 4) = 3"
    "distance (points out ! 4) = Some 8"
    using stamped [of 1]
    by (simp_all add: example_day_def example_point_def get_or_0_def)
  then show ?thesis using h inv saved by simp
qed

subsection \<open>Header of the combined dataset\<close>

text \<open>
  C4. For two non-empty day datasets the header of the combined file holds:
  \<open>total_distance\<close> is the sum of the two header totals (each read with default 0, no
  geometry involved), \<open>start_time\<close> is that of day 1, \<open>end_time\<close> that of day 2,
  \<open>day1_start_index\<close> is 0, \<open>day1_end_index\<close> is the number of day-1 points minus 1,
  \<open>day2_start_index\<close> is the number of day-1 points, \<open>day2_end_index\<close> is the number of
  combined points minus 1, and so \<open>day1_end_index + 1 = day2_start_index\<close>.
\<close>

theorem combined_header_fields:
  assumes "fs ''data/route-day1.json'' = Json d1" and "fs ''data/route-day2.json'' = Json d2"
    and "points d1 \<noteq> []" and "points d2 \<noteq> []"
  shows "\<exists>out. combine_routes fs = Saved ''data/route-combined.json'' out \<and>
     total_distance out = Some (get_or_0 (total_distance d1) + get_or_0 (total_distance d2)) \<and>
     day1_distance out = get_or_0 (total_distance d1) \<and>
     day2_distance out = get_or_0 (total_distance d2) \<and>
     start_time out = start_time d1 \<and>
     end_time out = end_time d2 \<and>
     day1_start_index out = 0 \<and>
     day1_end_index out = int (length (points d1)) - 1 \<and>
     day2_start_index out = int (length (points d1)) \<and>
     day2_end_index out = int (length (points out)) - 1 \<and>
     length (points out) = length (points d1) + length (points d2) \<and>
     day1_end_index out + 1 = day2_start_index out"
  unfolding combine_routes_saved [OF assms] by simp

theorem combined_header_fields_witness:
  "two_days ''data/route-day1.json'' = Json (example_day 5 [0, 2, 5]) \<and>
   two_days ''data/route-day2.json'' = Json (example_day 3 [0, 3]) \<and>
   points (example_day 5 [0, 2, 5]) \<noteq> [] \<and>
   points (example_day 3 [0, 3]) \<noteq> [] \<and>
   is_Saved (combine_routes two_days) \<and>
   total_distance (written (combine_routes two_days)) = Some 8 \<and>
   day1_start_index (written (combine_routes two_days)) = 0 \<and>
   day1_end_index (written (combine_routes two_days)) = 2 \<and>
   day2_start_index (written (combine_routes two_days)) = 3 \<and>
   day2_end_index (written (combine_routes two_days)) = 4"
proof -
  note h = two_days_files
  from combined_header_fields [OF h]
  obtain out where saved: "combine_routes two_days = Saved ''data/route-combined.json'' out"
    and header:
      "total_distance out =
         Some (get_or_0 (total_distance (example_day 5 [0, 2, 5])) +
               get_or_0 (total_distance (example_day 3 [0, 3])))"
      "day1_start_index out = 0"
      "day1_end_index out = int (length (points (example_day 5 [0, 2, 5]))) - 1"
      "day2_start_index out = int (length (points (example_day 5 [0, 2, 5])))"
      "day2_end_index out = int (length (points out)) - 1"
      "length (points out) =
         length (points (example_day 5 [0, 2, 5])) + length (points (example_day 3 [0, 3]))"
    by blast
  from header have
    "total_distance out = Some 8" "day1_start_index out = 0" "day1_end_index out = 2"
    "day2_start_index out = 3" "day2_end_index out = 4"
    by (simp_all add: example_day_def get_or_0_def)
  then show ?thesis using h saved by simp
qed

subsection \<open>Missing or empty day\<close>

text \<open>
  C6. If one of the two day files cannot be loaded (absent or not JSON), or one of the two
  datasets has an empty point list, \<open>combine_routes\<close> prints its report and returns
  without writing the combined file.
\<close>

theorem empty_or_missing_day_aborts:
  assumes "fs ''data/route-day1.json'' = NotFound \<or> fs ''data/route-day1.json'' = BadJson \<or>
           fs ''data/route-day2.json'' = NotFound \<or> fs ''data/route-day2.json'' = BadJson \<or>
           (\<exists>d. fs ''data/route-day1.json'' = Json d \<and> points d = []) \<or>
           (\<exists>d. fs ''data/route-day2.json'' = Json d \<and> points d = [])"
  shows "\<exists>printed. combine_routes fs = Aborted printed \<and> printed \<noteq> [] \<and>
           (last printed = ''Could not load route data!'' \<or>
            last printed = ''No points found in route data!'')"
  using assms
  by (auto simp: combine_routes_def load_route_data_def Let_def split: json_file.splits)

theorem empty_or_missing_day_aborts_witness:
  "day1_missing ''data/route-day1.json'' = NotFound \<and>
   combine_routes day1_missing =
     Aborted [''File data/route-day1.json not found!'', ''Could not load route data!''] \<and>
   day1_empty ''data/route-day1.json'' = Json (example_day 0 []) \<and>
   points (example_day 0 []) = [] \<and>
   combine_routes day1_empty = Aborted [''No points found in route data!'']"
proof -
  have missing: "day1_missing ''data/route-day1.json'' = NotFound"
    by (simp add: day1_missing_def example_disk_def)
  have empty: "day1_empty ''data/route-day1.json'' = Json (example_day 0 [])"
    "points (example_day 0 []) = []"
    by (simp_all add: day1_empty_def example_disk_def example_day_def)
  from missing have "\<exists>printed. combine_routes day1_missing = Aborted printed"
    using empty_or_missing_day_aborts [of day1_missing] by blast
  then have "is_Aborted (combine_routes day1_missing)" by auto
  moreover have "report (combine_routes day1_missing) =
     [''File data/route-day1.json not found!'', ''Could not load route data!'']"
    by (simp add: combine_routes_def load_route_data_def day1_missing_def example_disk_def)
  ultimately have one: "combine_routes day1_missing =
     Aborted [''File data/route-day1.json not found!'', ''Could not load route data!'']"
    by (cases "combine_routes day1_missing") simp_all
  from empty have "\<exists>printed. combine_routes day1_empty = Aborted printed"
    using empty_or_missing_day_aborts [of day1_empty] by blast
  then have "is_Aborted (combine_routes day1_empty)" by auto
  moreover have "report (combine_routes day1_empty) = [''No points found in route data!'']"
    by (simp add: combine_routes_def load_route_data_def day1_empty_def example_disk_def
        example_day_def)
  ultimately have two: "combine_routes day1_empty = Aborted [''No points found in route data!'']"
    by (cases "combine_routes day1_empty") simp_all
  show ?thesis using missing empty one two by simp
qed


section \<open>Properties of the distance function\<close>

text \<open>
  These lemmas are about \<open>calculate_distance\<close> on real numbers. There the argument of
  the square root lies between 0 and 1: it is a convex combination, with weight \<open>sin\<^sup>2\<close>
  of half the longitude difference, of \<open>(1 - cos (p2 - p1)) / 2\<close> and
  \<open>(1 + cos (p1 + p2)) / 2\<close>. So on the reals neither \<^verbatim>\<open>math.sqrt\<close> nor
  \<^verbatim>\<open>math.asin\<close> raises, and the distance is symmetric, at least 0, and 0 between a
  point and itself.
\<close>

lemma sin_squared_le_1: "(sin (x::real))\<^sup>2 \<le> 1"
  using sin_cos_squared_add [of x] zero_le_power2 [of "cos x"] by linarith

lemma haversine_term_bounds:
  fixes p1 p2 l1 l2 :: real
  defines "h \<equiv> (sin ((p2 - p1) / 2))\<^sup>2 + cos p1 * cos p2 * (sin ((l2 - l1) / 2))\<^sup>2"
  shows "0 \<le> h" and "h \<le> 1"
proof -
  define s where "s = (sin ((l2 - l1) / 2))\<^sup>2"
  define A where "A = (sin ((p2 - p1) / 2))\<^sup>2"
  define B where "B = A + cos p1 * cos p2"
  have s: "0 \<le> s" "s \<le> 1"
    unfolding s_def by (simp_all add: sin_squared_le_1)
  have twice: "2 * ((p2 - p1) / 2) = p2 - p1" by simp
  have "cos (p2 - p1) = 1 - 2 * A"
    unfolding A_def using cos_double_sin [of "(p2 - p1) / 2"] unfolding twice .
  then have A_eq: "A = (1 - cos (p2 - p1)) / 2" by simp
  have B_eq: "B = (1 + cos (p1 + p2)) / 2"
    unfolding B_def A_eq by (simp add: cos_diff cos_add field_simps)
  have A: "0 \<le> A" "A \<le> 1"
    unfolding A_def by (simp_all add: sin_squared_le_1)
  have "0 \<le> B"
    unfolding B_eq using cos_ge_minus_one [of "p1 + p2"] by argo
  moreover have "B \<le> 1"
    unfolding B_eq using cos_le_one [of "p1 + p2"] by argo
  ultimately have B: "0 \<le> B" "B \<le> 1" .
  have h_eq: "h = (1 - s) * A + s * B"
    unfolding h_def s_def A_def B_def by (simp add: algebra_simps)
  show "0 \<le> h" unfolding h_eq using s A B by simp
  show "h \<le> 1" unfolding h_eq using s A B convex_bound_le [of A 1 B "1 - s" s] by simp
qed

lemma calculate_distance_value:
  "calculate_distance lat1 lon1 lat2 lon2 =
     Inr (6371 * (2 * arcsin (sqrt
       ((sin ((radians lat2 - radians lat1) / 2))\<^sup>2 +
        cos (radians lat1) * cos (radians lat2) *
        (sin ((radians lon2 - radians lon1) / 2))\<^sup>2))))"
proof -
  let ?h = "(sin ((radians lat2 - radians lat1) / 2))\<^sup>2 +
        cos (radians lat1) * cos (radians lat2) *
        (sin ((radians lon2 - radians lon1) / 2))\<^sup>2"
  have "0 \<le> ?h" "?h \<le> 1" by (rule haversine_term_bounds)+
  then have "0 \<le> sqrt ?h" "sqrt ?h \<le> 1"
    by simp_all
  with \<open>0 \<le> ?h\<close> have "\<not> ?h < 0" "\<not> (sqrt ?h < - 1 \<or> 1 < sqrt ?h)"
    by linarith+
  then show ?thesis
    by (simp add: calculate_distance_def math_sqrt_def math_asin_def Let_def)
qed

lemma calculate_distance_nonneg:
  "\<exists>d. calculate_distance lat1 lon1 lat2 lon2 = Inr d \<and> 0 \<le> d"
proof -
  let ?h = "(sin ((radians lat2 - radians lat1) / 2))\<^sup>2 +
        cos (radians lat1) * cos (radians lat2) *
        (sin ((radians lon2 - radians lon1) / 2))\<^sup>2"
  have "0 \<le> ?h" "?h \<le> 1" by (rule haversine_term_bounds)+
  then have "sqrt ?h \<in> {0..1}" by simp
  then have "0 \<le> arcsin (sqrt ?h)" by (rule arcsin_nonneg)
  then show ?thesis unfolding calculate_distance_value by simp
qed

lemma calculate_distance_sym:
  "calculate_distance lat1 lon1 lat2 lon2 = calculate_distance lat2 lon2 lat1 lon1"
proof -
  have flip: "(sin ((x - y) / 2))\<^sup>2 = (sin ((y - x) / 2))\<^sup>2" for x y :: real
  proof -
    have "(x - y) / 2 = - ((y - x) / 2)" by (simp add: diff_divide_distrib)
    then show ?thesis by (simp only: sin_minus power2_minus)
  qed
  show ?thesis
    unfolding calculate_distance_value
    by (simp add: flip [of "radians lat2"] flip [of "radians lon2"] mult.commute)
qed

lemma calculate_distance_same:
  "calculate_distance lat1 lon1 lat1 lon1 = Inr 0"
  unfolding calculate_distance_value by simp

section \<open>Properties of the track accumulator\<close>

subsection \<open>The first loop, point by point\<close>

lemma extract_points_append:
  "extract_points (xs @ ys) st =
     (case extract_points xs st of Inl e \<Rightarrow> Inl e | Inr st' \<Rightarrow> extract_points ys st')"
  by (induction xs st rule: extract_points.induct)
     (simp_all add: Let_def split: sum.splits option.splits)

lemma extract_points_first:
  "extract_points [p] ([], elevation_points, t, None) =
     Inr ([\<lparr>distance = Some t,
            elevation = (case gpx_elevation p of Some e \<Rightarrow> e | None \<Rightarrow> 0),
            time = parse_time (gpx_time p),
            lat = latitude p, lon = longitude p\<rparr>],
          (case gpx_elevation p of
             Some e \<Rightarrow> elevation_points @
               [\<lparr>distance = Some t, elevation = e, time = parse_time (gpx_time p)\<rparr>]
           | None \<Rightarrow> elevation_points),
          t, Some (latitude p, longitude p))"
  by (simp add: Let_def)

lemma extract_points_next:
  assumes "calculate_distance a b (latitude p) (longitude p) = Inr seg"
  shows "extract_points [p] (all_points, elevation_points, t, Some (a, b)) =
     Inr (all_points @
          [\<lparr>distance = Some (t + seg),
            elevation = (case gpx_elevation p of Some e \<Rightarrow> e | None \<Rightarrow> 0),
            time = parse_time (gpx_time p),
            lat = latitude p, lon = longitude p\<rparr>],
          (case gpx_elevation p of
             Some e \<Rightarrow> elevation_points @
               [\<lparr>distance = Some (t + seg), elevation = e, time = parse_time (gpx_time p)\<rparr>]
           | None \<Rightarrow> elevation_points),
          t + seg, Some (latitude p, longitude p))"
  using assms by (simp add: Let_def)


text \<open>
  The loop invariant, by induction on the points read so far: the loop never raises, one
  route point is appended per input point with the input's coordinates, its elevation or 0,
  and its formatted time; the first distance is 0, each later one is the previous one plus
  the distance between the two points, and the running total is the last distance.
\<close>

lemma extract_points_invariant:
  "\<exists>all_points elevation_points t.
     extract_points pts ([], [], 0, None) =
       Inr (all_points, elevation_points, t,
            if pts = [] then None else Some (latitude (last pts), longitude (last pts))) \<and>
     length all_points = length pts \<and>
     (pts = [] \<longrightarrow> t = 0) \<and>
     (pts \<noteq> [] \<longrightarrow> distance (last all_points) = Some t \<and> distance (hd all_points) = Some 0) \<and>
     (\<forall>i < length pts.
        lat (all_points ! i) = latitude (pts ! i) \<and>
        lon (all_points ! i) = longitude (pts ! i) \<and>
        elevation (all_points ! i) = (case gpx_elevation (pts ! i) of Some e \<Rightarrow> e | None \<Rightarrow> 0) \<and>
        time (all_points ! i) = parse_time (gpx_time (pts ! i))) \<and>
     (\<forall>i. Suc i < length pts \<longrightarrow>
        (\<exists>d seg. distance (all_points ! i) = Some d \<and>
           calculate_distance (latitude (pts ! i)) (longitude (pts ! i))
             (latitude (pts ! Suc i)) (longitude (pts ! Suc i)) = Inr seg \<and>
           0 \<le> seg \<and>
           distance (all_points ! Suc i) = Some (d + seg)))"
proof (induction pts rule: rev_induct)
  case Nil
  show ?case by simp
next
  case (snoc p xs)
  then obtain all_points elevation_points t where
    run: "extract_points xs ([], [], 0, None) =
       Inr (all_points, elevation_points, t,
            if xs = [] then None else Some (latitude (last xs), longitude (last xs)))"
    and len: "length all_points = length xs"
    and empty: "xs = [] \<longrightarrow> t = 0"
    and ends: "xs \<noteq> [] \<longrightarrow> distance (last all_points) = Some t \<and> distance (hd all_points) = Some 0"
    and fields: "\<forall>i < length xs.
        lat (all_points ! i) = latitude (xs ! i) \<and>
        lon (all_points ! i) = longitude (xs ! i) \<and>
        elevation (all_points ! i) = (case gpx_elevation (xs ! i) of Some e \<Rightarrow> e | None \<Rightarrow> 0) \<and>
        time (all_points ! i) = parse_time (gpx_time (xs ! i))"
    and steps: "\<forall>i. Suc i < length xs \<longrightarrow>
        (\<exists>d seg. distance (all_points ! i) = Some d \<and>
           calculate_distance (latitude (xs ! i)) (longitude (xs ! i))
             (latitude (xs ! Suc i)) (longitude (xs ! Suc i)) = Inr seg \<and>
           0 \<le> seg \<and>
           distance (all_points ! Suc i) = Some (d + seg))"
    by blast
  show ?case
  proof (cases "xs = []")
    case True
    with len empty have start: "all_points = []" "t = 0" by simp_all
    have "extract_points (xs @ [p]) ([], [], 0, None) =
            extract_points [p] ([], elevation_points, 0, None)"
      using run True start by (simp only: extract_points_append) simp
    then show ?thesis
      unfolding extract_points_first using True by simp
  next
    case False
    let ?a = "latitude (last xs)" and ?b = "longitude (last xs)"
    obtain seg where seg: "calculate_distance ?a ?b (latitude p) (longitude p) = Inr seg"
      and seg_nonneg: "0 \<le> seg"
      using calculate_distance_nonneg by blast
    define new_point where "new_point =
       \<lparr>distance = Some (t + seg),
        elevation = (case gpx_elevation p of Some e \<Rightarrow> e | None \<Rightarrow> 0),
        time = parse_time (gpx_time p),
        lat = latitude p, lon = longitude p\<rparr>"
    define new_elevation_points where "new_elevation_points =
       (case gpx_elevation p of
          Some e \<Rightarrow> elevation_points @
            [\<lparr>distance = Some (t + seg), elevation = e, time = parse_time (gpx_time p)\<rparr>]
        | None \<Rightarrow> elevation_points)"
    have "extract_points (xs @ [p]) ([], [], 0, None) =
            extract_points [p] (all_points, elevation_points, t, Some (?a, ?b))"
      using run False by (simp only: extract_points_append) simp
    then have result: "extract_points (xs @ [p]) ([], [], 0, None) =
       Inr (all_points @ [new_point], new_elevation_points, t + seg,
            Some (latitude p, longitude p))"
      unfolding extract_points_next [OF seg] new_point_def new_elevation_points_def .
    from False len have nonempty: "all_points \<noteq> []" by auto
    from False ends have last_t: "distance (last all_points) = Some t"
      and first_0: "distance (hd all_points) = Some 0" by simp_all
    have c_len: "length (all_points @ [new_point]) = length (xs @ [p])"
      using len by simp
    have c_ends: "distance (last (all_points @ [new_point])) = Some (t + seg) \<and>
        distance (hd (all_points @ [new_point])) = Some 0"
      using nonempty first_0 by (simp add: new_point_def)
    have c_fields: "lat ((all_points @ [new_point]) ! i) = latitude ((xs @ [p]) ! i) \<and>
        lon ((all_points @ [new_point]) ! i) = longitude ((xs @ [p]) ! i) \<and>
        elevation ((all_points @ [new_point]) ! i) =
          (case gpx_elevation ((xs @ [p]) ! i) of Some e \<Rightarrow> e | None \<Rightarrow> 0) \<and>
        time ((all_points @ [new_point]) ! i) = parse_time (gpx_time ((xs @ [p]) ! i))"
      if "i < length (xs @ [p])" for i
    proof (cases "i < length xs")
      case True
      then show ?thesis using fields len by (simp add: nth_append)
    next
      case False
      with that have "i = length xs" by simp
      then show ?thesis using len by (simp add: nth_append new_point_def)
    qed
    have c_steps: "\<exists>d s. distance ((all_points @ [new_point]) ! i) = Some d \<and>
           calculate_distance (latitude ((xs @ [p]) ! i)) (longitude ((xs @ [p]) ! i))
             (latitude ((xs @ [p]) ! Suc i)) (longitude ((xs @ [p]) ! Suc i)) = Inr s \<and>
           0 \<le> s \<and>
           distance ((all_points @ [new_point]) ! Suc i) = Some (d + s)"
      if "Suc i < length (xs @ [p])" for i
    proof (cases "Suc i < length xs")
      case True
      then show ?thesis using steps len by (simp add: nth_append)
    next
      case False
      with that have i: "Suc i = length xs" by simp
      then have "i < length xs" by simp
      from i have i_last: "i = length xs - 1" by simp
      have "all_points ! i = last all_points"
        using nonempty len i_last by (simp add: last_conv_nth)
      moreover have "xs ! i = last xs"
        using \<open>xs \<noteq> []\<close> i_last by (simp add: last_conv_nth)
      ultimately show ?thesis
        using i len last_t seg seg_nonneg \<open>i < length xs\<close>
        by (simp add: nth_append new_point_def)
    qed
    show ?thesis
      unfolding result using c_len c_ends c_fields c_steps
      by (intro exI [of _ "all_points @ [new_point]"] exI [of _ new_elevation_points]
          exI [of _ "t + seg"]) (simp del: length_append nth_append_length)
  qed
qed

lemma accumulate_invariant:
  "\<exists>route profile.
     accumulate pts = Inr (route, profile) \<and>
     length (points route) = length pts \<and>
     total_distance profile = total_distance route \<and>
     points profile = elevation_profile_of (points route) \<and>
     (pts = [] \<longrightarrow> total_distance route = Some 0) \<and>
     (pts \<noteq> [] \<longrightarrow> total_distance route = distance (last (points route)) \<and>
        distance (points route ! 0) = Some 0) \<and>
     (\<forall>i < length pts.
        lat (points route ! i) = latitude (pts ! i) \<and>
        lon (points route ! i) = longitude (pts ! i) \<and>
        elevation (points route ! i) = (case gpx_elevation (pts ! i) of Some e \<Rightarrow> e | None \<Rightarrow> 0) \<and>
        time (points route ! i) = parse_time (gpx_time (pts ! i))) \<and>
     (\<forall>i. Suc i < length pts \<longrightarrow>
        (\<exists>d seg. distance (points route ! i) = Some d \<and>
           calculate_distance (latitude (pts ! i)) (longitude (pts ! i))
             (latitude (pts ! Suc i)) (longitude (pts ! Suc i)) = Inr seg \<and>
           0 \<le> seg \<and>
           distance (points route ! Suc i) = Some (d + seg)))"
proof -
  from extract_points_invariant [of pts]
  obtain all_points elevation_points t where
    run: "extract_points pts ([], [], 0, None) =
       Inr (all_points, elevation_points, t,
            if pts = [] then None else Some (latitude (last pts), longitude (last pts)))"
    and len: "length all_points = length pts"
    and empty: "pts = [] \<longrightarrow> t = 0"
    and ends: "pts \<noteq> [] \<longrightarrow> distance (last all_points) = Some t \<and> distance (hd all_points) = Some 0"
    and fields: "\<forall>i < length pts.
        lat (all_points ! i) = latitude (pts ! i) \<and>
        lon (all_points ! i) = longitude (pts ! i) \<and>
        elevation (all_points ! i) = (case gpx_elevation (pts ! i) of Some e \<Rightarrow> e | None \<Rightarrow> 0) \<and>
        time (all_points ! i) = parse_time (gpx_time (pts ! i))"
    and steps: "\<forall>i. Suc i < length pts \<longrightarrow>
        (\<exists>d seg. distance (all_points ! i) = Some d \<and>
           calculate_distance (latitude (pts ! i)) (longitude (pts ! i))
             (latitude (pts ! Suc i)) (longitude (pts ! Suc i)) = Inr seg \<and>
           0 \<le> seg \<and>
           distance (all_points ! Suc i) = Some (d + seg))"
    by blast
  have first: "pts \<noteq> [] \<longrightarrow> distance (all_points ! 0) = Some 0"
    using ends len by (cases all_points) auto
  show ?thesis
    unfolding accumulate_def run
    using len empty ends first fields steps by simp
qed


text \<open>
  A route dataset written by the converter for a non-empty track has its last point's
  distance as \<open>total_distance\<close>: the stitcher's offset after day 1 is then the header
  total of day 1.
\<close>

lemma accumulate_total_is_last_distance:
  assumes "accumulate pts = Inr (route, profile)" and "pts \<noteq> []"
  shows "points route \<noteq> [] \<and> total_distance route = distance (last (points route))"
proof -
  from accumulate_invariant [of pts] assms(2)
  obtain route' profile' where
    "accumulate pts = Inr (route', profile')"
    "length (points route') = length pts"
    "total_distance route' = distance (last (points route'))"
    by blast
  with assms show ?thesis by auto
qed

text \<open>The accumulator, evaluated on the example track.\<close>

lemma example_track_accumulated:
  "accumulate example_track =
     Inr (\<lparr>total_distance = Some (6371 * pi),
           points =
             [\<lparr>distance = Some 0, elevation = 120, time = Some ''09:05'', lat = 0, lon = 0\<rparr>,
              \<lparr>distance = Some (6371 * pi), elevation = 0, time = None, lat = 0, lon = 180\<rparr>,
              \<lparr>distance = Some (6371 * pi), elevation = - 5, time = None, lat = 0, lon = 180\<rparr>],
           start_time = Some ''09:05'', end_time = None\<rparr>,
          \<lparr>total_distance = Some (6371 * pi),
           points = [\<lparr>distance = Some 0, elevation = 120, time = Some ''09:05''\<rparr>]\<rparr>)"
  by (simp add: accumulate_def example_track_def Let_def calculate_distance_def radians_def
      math_sqrt_def math_asin_def parse_time_def two_digits_def elevation_profile_of_def)

subsection \<open>Cumulative distances\<close>

text \<open>
  C3. For a non-empty point sequence the accumulator returns a route dataset with one
  point per input point, whose first point has \<open>distance\<close> 0, in which each later point's
  distance is the previous point's distance plus \<open>calculate_distance\<close> between the two
  input points (so the distances never decrease), and whose \<open>total_distance\<close> is the
  \<open>distance\<close> of its last point.
\<close>

theorem accumulated_distances_start_at_zero_and_grow:
  assumes "pts \<noteq> []"
  shows "\<exists>route profile.
     accumulate pts = Inr (route, profile) \<and>
     length (points route) = length pts \<and>
     distance (points route ! 0) = Some 0 \<and>
     (\<forall>i. Suc i < length pts \<longrightarrow>
        (\<exists>d seg. distance (points route ! i) = Some d \<and>
           calculate_distance (latitude (pts ! i)) (longitude (pts ! i))
             (latitude (pts ! Suc i)) (longitude (pts ! Suc i)) = Inr seg \<and>
           distance (points route ! Suc i) = Some (d + seg) \<and>
           d \<le> d + seg)) \<and>
     sorted (map (\<lambda>point. get_or_0 (distance point)) (points route)) \<and>
     total_distance route = distance (last (points route))"
proof -
  from accumulate_invariant [of pts] assms
  obtain route profile where
    acc: "accumulate pts = Inr (route, profile)"
    and len: "length (points route) = length pts"
    and ends: "total_distance route = distance (last (points route))"
      "distance (points route ! 0) = Some 0"
    and steps: "\<forall>i. Suc i < length pts \<longrightarrow>
        (\<exists>d seg. distance (points route ! i) = Some d \<and>
           calculate_distance (latitude (pts ! i)) (longitude (pts ! i))
             (latitude (pts ! Suc i)) (longitude (pts ! Suc i)) = Inr seg \<and>
           0 \<le> seg \<and>
           distance (points route ! Suc i) = Some (d + seg))"
    by blast
  have grow: "\<forall>i. Suc i < length pts \<longrightarrow>
        (\<exists>d seg. distance (points route ! i) = Some d \<and>
           calculate_distance (latitude (pts ! i)) (longitude (pts ! i))
             (latitude (pts ! Suc i)) (longitude (pts ! Suc i)) = Inr seg \<and>
           distance (points route ! Suc i) = Some (d + seg) \<and>
           d \<le> d + seg)"
    using steps by fastforce
  have "get_or_0 (distance (points route ! i)) \<le> get_or_0 (distance (points route ! Suc i))"
    if "Suc i < length pts" for i
    using grow that by (fastforce simp: get_or_0_def)
  then have "sorted (map (\<lambda>point. get_or_0 (distance point)) (points route))"
    using len by (simp add: sorted_iff_nth_Suc)
  with acc len ends grow show ?thesis by blast
qed

text \<open>
  On the example track the distances are 0, \<open>6371 * pi\<close>, \<open>6371 * pi\<close> and the total is
  \<open>6371 * pi\<close>.
\<close>

theorem accumulated_distances_start_at_zero_and_grow_witness:
  "example_track \<noteq> [] \<and>
   (\<exists>route profile.
      accumulate example_track = Inr (route, profile) \<and>
      map distance (points route) = [Some 0, Some (6371 * pi), Some (6371 * pi)] \<and>
      sorted (map (\<lambda>point. get_or_0 (distance point)) (points route)) \<and>
      total_distance route = Some (6371 * pi))"
proof -
  have h: "example_track \<noteq> []" by (simp add: example_track_def)
  from accumulated_distances_start_at_zero_and_grow [OF h]
  obtain route profile where
    acc: "accumulate example_track = Inr (route, profile)"
    and sorted: "sorted (map (\<lambda>point. get_or_0 (distance point)) (points route))"
    by blast
  from acc have "map distance (points route) = [Some 0, Some (6371 * pi), Some (6371 * pi)]"
    and "total_distance route = Some (6371 * pi)"
    unfolding example_track_accumulated by auto
  with h acc sorted show ?thesis by auto
qed

subsection \<open>Elevation profile\<close>

text \<open>
  C5. For every point sequence, the route dataset stores for each input point its
  elevation, or 0 when the input has none; a stored elevation is positive exactly when the
  input elevation is present and positive; the elevation dataset is the list of the
  distance-stamped route points with a positive elevation, in order, each reduced to
  \<open>distance\<close>, \<open>elevation\<close> and \<open>time\<close>; and it has at most as many points as the route
  dataset.
\<close>

theorem elevation_profile_keeps_positive_elevations:
  "\<exists>route profile.
     accumulate pts = Inr (route, profile) \<and>
     length (points route) = length pts \<and>
     (\<forall>i < length pts.
        elevation (points route ! i) =
          (case gpx_elevation (pts ! i) of Some e \<Rightarrow> e | None \<Rightarrow> 0) \<and>
        (0 < elevation (points route ! i)) =
          (\<exists>e. gpx_elevation (pts ! i) = Some e \<and> 0 < e)) \<and>
     points profile =
       map (\<lambda>point. \<lparr>distance = distance point, elevation = elevation point, time = time point\<rparr>)
         (filter (\<lambda>point. 0 < elevation point) (points route)) \<and>
     length (points profile) \<le> length (points route)"
proof -
  from accumulate_invariant [of pts]
  obtain route profile where
    acc: "accumulate pts = Inr (route, profile)"
    and len: "length (points route) = length pts"
    and prof: "points profile = elevation_profile_of (points route)"
    and fields: "\<forall>i < length pts.
        elevation (points route ! i) = (case gpx_elevation (pts ! i) of Some e \<Rightarrow> e | None \<Rightarrow> 0)"
    by blast
  have pos: "(0 < elevation (points route ! i)) = (\<exists>e. gpx_elevation (pts ! i) = Some e \<and> 0 < e)"
    if "i < length pts" for i
    using fields that by (cases "gpx_elevation (pts ! i)") simp_all
  have shape: "points profile =
       map (\<lambda>point. \<lparr>distance = distance point, elevation = elevation point, time = time point\<rparr>)
         (filter (\<lambda>point. 0 < elevation point) (points route))"
    unfolding prof elevation_profile_of_def ..
  have "length (points profile) \<le> length (points route)"
    unfolding shape by simp
  with acc len fields pos shape show ?thesis by blast
qed

text \<open>
  On the example track (elevations 120, absent, -5) the route dataset stores 120, 0, -5
  and the profile holds the first point only.
\<close>

theorem elevation_profile_keeps_positive_elevations_witness:
  "\<exists>route profile.
     accumulate example_track = Inr (route, profile) \<and>
     map elevation (points route) = [120, 0, - 5] \<and>
     map gpx_elevation example_track = [Some 120, None, Some (- 5)] \<and>
     points profile = [\<lparr>distance = Some 0, elevation = 120, time = Some ''09:05''\<rparr>] \<and>
     length (points profile) \<le> length (points route)"
proof -
  from elevation_profile_keeps_positive_elevations [of example_track]
  obtain route profile where
    acc: "accumulate example_track = Inr (route, profile)"
    and le: "length (points profile) \<le> length (points route)"
    by blast
  from acc have "map elevation (points route) = [120, 0, - 5]"
    and "points profile = [\<lparr>distance = Some 0, elevation = 120, time = Some ''09:05''\<rparr>]"
    unfolding example_track_accumulated by auto
  moreover have "map gpx_elevation example_track = [Some 120, None, Some (- 5)]"
    by (simp add: example_track_def)
  ultimately show ?thesis using acc le by auto
qed

section \<open>Properties of the path projector\<close>

lemma path_loop_line_to:
  assumes "max_lon \<noteq> min_lon" and "max_lat \<noteq> min_lat" and "0 < i"
  shows "path_loop fmt (min_lat, max_lat) (min_lon, max_lon) i pts path_parts =
     Inr (path_parts @
          map (\<lambda>p. ''L '' @ fmt ((lon p - min_lon) / (max_lon - min_lon) * 1000) @ '' '' @
                     fmt ((max_lat - lat p) / (max_lat - min_lat) * 500)) pts)"
  using assms
  by (induction pts arbitrary: i path_parts) (simp_all add: py_div_def Let_def)

lemma path_loop_move_to:
  assumes "max_lon \<noteq> min_lon" and "max_lat \<noteq> min_lat"
  shows "path_loop fmt (min_lat, max_lat) (min_lon, max_lon) 0 (p # ps) [] =
     Inr ((''M '' @ fmt ((lon p - min_lon) / (max_lon - min_lon) * 1000) @ '' '' @
                     fmt ((max_lat - lat p) / (max_lat - min_lat) * 500)) #
          map (\<lambda>p. ''L '' @ fmt ((lon p - min_lon) / (max_lon - min_lon) * 1000) @ '' '' @
                     fmt ((max_lat - lat p) / (max_lat - min_lat) * 500)) ps)"
  using assms by (simp add: py_div_def Let_def path_loop_line_to)

lemma path_loop_zero_span:
  assumes "max_lon = min_lon \<or> max_lat = min_lat"
  shows "path_loop fmt (min_lat, max_lat) (min_lon, max_lon) i (p # ps) path_parts =
     Inl ZeroDivisionError"
  using assms by (auto simp: py_div_def Let_def)

lemma spread_Min_less_Max:
  fixes f :: "'a \<Rightarrow> real"
  assumes "p \<in> set pts" and "q \<in> set pts" and "f p \<noteq> f q"
  shows "Min (f ` set pts) < Max (f ` set pts)"
proof -
  have "Min (f ` set pts) \<le> min (f p) (f q)" using assms by (simp add: Min_le)
  moreover have "max (f p) (f q) \<le> Max (f ` set pts)" using assms by simp
  moreover have "min (f p) (f q) < max (f p) (f q)" using assms by (simp add: min_def max_def)
  ultimately show ?thesis by linarith
qed

lemma constant_Min_eq_Max:
  fixes f :: "'a \<Rightarrow> real"
  assumes "pts \<noteq> []" and "\<forall>p\<in>set pts. \<forall>q\<in>set pts. f p = f q"
  shows "Min (f ` set pts) = Max (f ` set pts)"
proof -
  from assms(1) obtain p where p: "p \<in> set pts" by (cases pts) auto
  have "f q = f p" if "q \<in> set pts" for q
    using assms(2) p that by blast
  then have "f ` set pts = {f p}" using p by blast
  then show ?thesis by (simp only: Min_singleton Max_singleton)
qed

lemma scaled_ratio_bounds:
  fixes v lo hi w :: real
  assumes "lo \<le> v" and "v \<le> hi" and "lo < hi" and "0 \<le> w"
  shows "0 \<le> (v - lo) / (hi - lo) * w" and "(v - lo) / (hi - lo) * w \<le> w"
    and "0 \<le> (hi - v) / (hi - lo) * w" and "(hi - v) / (hi - lo) * w \<le> w"
proof -
  define a where "a = (v - lo) / (hi - lo)"
  define b where "b = (hi - v) / (hi - lo)"
  have a: "0 \<le> a" "a \<le> 1"
    unfolding a_def using assms by (simp_all add: divide_le_eq)
  have b: "0 \<le> b" "b \<le> 1"
    unfolding b_def using assms by (simp_all add: divide_le_eq)
  have "0 \<le> a * w" using a(1) assms(4) by (rule mult_nonneg_nonneg)
  then show "0 \<le> (v - lo) / (hi - lo) * w" by (simp only: a_def)
  have "a * w \<le> 1 * w" using a(2) assms(4) by (rule mult_right_mono)
  then show "(v - lo) / (hi - lo) * w \<le> w" unfolding a_def by simp
  have "0 \<le> b * w" using b(1) assms(4) by (rule mult_nonneg_nonneg)
  then show "0 \<le> (hi - v) / (hi - lo) * w" by (simp only: b_def)
  have "b * w \<le> 1 * w" using b(2) assms(4) by (rule mult_right_mono)
  then show "(hi - v) / (hi - lo) * w \<le> w" unfolding b_def by simp
qed

lemma create_svg_path_nonempty:
  assumes "pts \<noteq> []"
  shows "create_svg_path_from_coordinates fmt pts =
     (case path_loop fmt (Min (lat ` set pts), Max (lat ` set pts))
             (Min (lon ` set pts), Max (lon ` set pts)) 0 pts [] of
        Inl e \<Rightarrow> Inl e
      | Inr path_parts \<Rightarrow> Inr (join_spaces path_parts))"
  using assms by (simp add: create_svg_path_from_coordinates_def Let_def)

text \<open>
  C8. If the points do not all share one latitude and do not all share one longitude, the
  projection returns a path (no division by zero): a move-to for the first point followed by
  a line-to for each other point, where a point's \<open>x\<close> is
  \<open>(lon - min_lon) / (max_lon - min_lon) * 1000\<close> and lies in [0, 1000], its \<open>y\<close> is
  \<open>(max_lat - lat) / (max_lat - min_lat) * 500\<close> and lies in [0, 500], the smallest
  longitude is sent to \<open>x = 0\<close>, the largest to \<open>x = 1000\<close>, the largest latitude to
  \<open>y = 0\<close> and the smallest to \<open>y = 500\<close>. If the list is not empty and all points
  share one latitude or share one longitude, the projection raises
  \<^verbatim>\<open>ZeroDivisionError\<close>.
\<close>

theorem svg_path_projection:
  fixes fmt :: "real \<Rightarrow> string" and pts :: "route_point list"
  defines "min_lat \<equiv> Min (lat ` set pts)" and "max_lat \<equiv> Max (lat ` set pts)"
    and "min_lon \<equiv> Min (lon ` set pts)" and "max_lon \<equiv> Max (lon ` set pts)"
  defines "x \<equiv> \<lambda>p. (lon p - min_lon) / (max_lon - min_lon) * 1000"
    and "y \<equiv> \<lambda>p. (max_lat - lat p) / (max_lat - min_lat) * 500"
  shows "((\<exists>p\<in>set pts. \<exists>q\<in>set pts. lat p \<noteq> lat q) \<and>
          (\<exists>p\<in>set pts. \<exists>q\<in>set pts. lon p \<noteq> lon q) \<longrightarrow>
            create_svg_path_from_coordinates fmt pts =
              Inr (join_spaces
                ((''M '' @ fmt (x (hd pts)) @ '' '' @ fmt (y (hd pts))) #
                 map (\<lambda>p. ''L '' @ fmt (x p) @ '' '' @ fmt (y p)) (tl pts))) \<and>
            (\<forall>p\<in>set pts.
               0 \<le> x p \<and> x p \<le> 1000 \<and> 0 \<le> y p \<and> y p \<le> 500 \<and>
               (lon p = min_lon \<longrightarrow> x p = 0) \<and> (lon p = max_lon \<longrightarrow> x p = 1000) \<and>
               (lat p = max_lat \<longrightarrow> y p = 0) \<and> (lat p = min_lat \<longrightarrow> y p = 500))) \<and>
         (pts \<noteq> [] \<and>
          ((\<forall>p\<in>set pts. \<forall>q\<in>set pts. lat p = lat q) \<or>
           (\<forall>p\<in>set pts. \<forall>q\<in>set pts. lon p = lon q)) \<longrightarrow>
            create_svg_path_from_coordinates fmt pts = Inl ZeroDivisionError)"
proof (intro conjI impI)
  assume spread: "(\<exists>p\<in>set pts. \<exists>q\<in>set pts. lat p \<noteq> lat q) \<and>
          (\<exists>p\<in>set pts. \<exists>q\<in>set pts. lon p \<noteq> lon q)"
  from spread obtain p q where "p \<in> set pts" "q \<in> set pts" "lat p \<noteq> lat q" by blast
  then have lat_span: "min_lat < max_lat"
    unfolding min_lat_def max_lat_def by (rule spread_Min_less_Max)
  from spread obtain p q where "p \<in> set pts" "q \<in> set pts" "lon p \<noteq> lon q" by blast
  then have lon_span: "min_lon < max_lon"
    unfolding min_lon_def max_lon_def by (rule spread_Min_less_Max)
  from spread obtain p0 ps where pts: "pts = p0 # ps" by (cases pts) auto
  show "create_svg_path_from_coordinates fmt pts =
              Inr (join_spaces
                ((''M '' @ fmt (x (hd pts)) @ '' '' @ fmt (y (hd pts))) #
                 map (\<lambda>p. ''L '' @ fmt (x p) @ '' '' @ fmt (y p)) (tl pts)))"
  proof -
    have ne: "max_lon \<noteq> min_lon" "max_lat \<noteq> min_lat" using lat_span lon_span by simp_all
    have nonempty: "pts \<noteq> []" using pts by simp
    have loop: "path_loop fmt (min_lat, max_lat) (min_lon, max_lon) 0 pts [] =
      Inr ((''M '' @ fmt (x (hd pts)) @ '' '' @ fmt (y (hd pts))) #
           map (\<lambda>p. ''L '' @ fmt (x p) @ '' '' @ fmt (y p)) (tl pts))"
      unfolding pts list.sel x_def y_def by (rule path_loop_move_to [OF ne])
    show ?thesis
      unfolding create_svg_path_nonempty [OF nonempty]
      unfolding min_lat_def [symmetric] max_lat_def [symmetric] min_lon_def [symmetric]
        max_lon_def [symmetric] loop
      by simp
  qed
  show "\<forall>p\<in>set pts.
               0 \<le> x p \<and> x p \<le> 1000 \<and> 0 \<le> y p \<and> y p \<le> 500 \<and>
               (lon p = min_lon \<longrightarrow> x p = 0) \<and> (lon p = max_lon \<longrightarrow> x p = 1000) \<and>
               (lat p = max_lat \<longrightarrow> y p = 0) \<and> (lat p = min_lat \<longrightarrow> y p = 500)"
  proof
    fix p assume p: "p \<in> set pts"
    then have lat_in: "min_lat \<le> lat p" "lat p \<le> max_lat"
      and lon_in: "min_lon \<le> lon p" "lon p \<le> max_lon"
      unfolding min_lat_def max_lat_def min_lon_def max_lon_def by simp_all
    have "0 \<le> x p" "x p \<le> 1000"
      unfolding x_def using scaled_ratio_bounds(1,2) [OF lon_in lon_span, of 1000] by simp_all
    moreover have "0 \<le> y p" "y p \<le> 500"
      unfolding y_def using scaled_ratio_bounds(3,4) [OF lat_in lat_span, of 500] by simp_all
    moreover have "lon p = min_lon \<longrightarrow> x p = 0" "lon p = max_lon \<longrightarrow> x p = 1000"
      "lat p = max_lat \<longrightarrow> y p = 0" "lat p = min_lat \<longrightarrow> y p = 500"
      unfolding x_def y_def using lat_span lon_span by simp_all
    ultimately show "0 \<le> x p \<and> x p \<le> 1000 \<and> 0 \<le> y p \<and> y p \<le> 500 \<and>
               (lon p = min_lon \<longrightarrow> x p = 0) \<and> (lon p = max_lon \<longrightarrow> x p = 1000) \<and>
               (lat p = max_lat \<longrightarrow> y p = 0) \<and> (lat p = min_lat \<longrightarrow> y p = 500)"
      by blast
  qed
next
  assume flat: "pts \<noteq> [] \<and>
          ((\<forall>p\<in>set pts. \<forall>q\<in>set pts. lat p = lat q) \<or>
           (\<forall>p\<in>set pts. \<forall>q\<in>set pts. lon p = lon q))"
  then obtain p0 ps where pts: "pts = p0 # ps" by (cases pts) auto
  from flat have nonempty: "pts \<noteq> []" by simp
  from flat consider "\<forall>p\<in>set pts. \<forall>q\<in>set pts. lat p = lat q"
    | "\<forall>p\<in>set pts. \<forall>q\<in>set pts. lon p = lon q" by blast
  then have "max_lon = min_lon \<or> max_lat = min_lat"
  proof cases
    case 1
    have "max_lat = min_lat"
      unfolding min_lat_def max_lat_def
      by (rule constant_Min_eq_Max [OF nonempty 1, symmetric])
    then show ?thesis ..
  next
    case 2
    have "max_lon = min_lon"
      unfolding min_lon_def max_lon_def
      by (rule constant_Min_eq_Max [OF nonempty 2, symmetric])
    then show ?thesis ..
  qed
  then have loop: "path_loop fmt (min_lat, max_lat) (min_lon, max_lon) 0 pts [] =
     Inl ZeroDivisionError"
    unfolding pts by (rule path_loop_zero_span)
  show "create_svg_path_from_coordinates fmt pts = Inl ZeroDivisionError"
    unfolding create_svg_path_nonempty [OF nonempty]
    unfolding min_lat_def [symmetric] max_lat_def [symmetric] min_lon_def [symmetric]
      max_lon_def [symmetric] loop
    by simp
qed

text \<open>
  On the diagonal the path is \<^verbatim>\<open>M 0.00 500.00 L 1000.00 0.00\<close>; on a single point the
  projection raises.
\<close>

theorem svg_path_projection_witness:
  "(\<exists>p\<in>set diagonal. \<exists>q\<in>set diagonal. lat p \<noteq> lat q) \<and>
   (\<exists>p\<in>set diagonal. \<exists>q\<in>set diagonal. lon p \<noteq> lon q) \<and>
   create_svg_path_from_coordinates corner_format diagonal =
     Inr ''M 0.00 500.00 L 1000.00 0.00'' \<and>
   single_point \<noteq> [] \<and>
   map lat single_point = [46] \<and>
   create_svg_path_from_coordinates corner_format single_point = Inl ZeroDivisionError"
proof -
  have spread: "(\<exists>p\<in>set diagonal. \<exists>q\<in>set diagonal. lat p \<noteq> lat q) \<and>
      (\<exists>p\<in>set diagonal. \<exists>q\<in>set diagonal. lon p \<noteq> lon q)"
    by (auto simp: diagonal_def path_point_def)
  have flat: "single_point \<noteq> [] \<and>
      ((\<forall>p\<in>set single_point. \<forall>q\<in>set single_point. lat p = lat q) \<or>
       (\<forall>p\<in>set single_point. \<forall>q\<in>set single_point. lon p = lon q))"
    by (simp add: single_point_def)
  note on_diagonal =
    svg_path_projection [where pts = diagonal and fmt = corner_format,
      THEN conjunct1, THEN mp, OF spread, THEN conjunct1]
  note on_single =
    svg_path_projection [where pts = single_point and fmt = corner_format,
      THEN conjunct2, THEN mp, OF flat]
  have path: "create_svg_path_from_coordinates corner_format diagonal =
     Inr ''M 0.00 500.00 L 1000.00 0.00''"
    unfolding on_diagonal by (simp add: diagonal_def path_point_def corner_format_def)
  have same: "map lat single_point = [46]"
    by (simp add: single_point_def path_point_def)
  from spread path flat same on_single show ?thesis
    by (intro conjI) (erule conjunct1 conjunct2 | assumption)+
qed


end
